theory Spec2Isabelle
  imports Main "HOL-Library.AList"
begin

section \<open>Backup schedule extension: data model\<close>

text \<open>
  The extension is one Python module: the two vocabularies \<open>DAY_CHOICES\<close> and
  \<open>HOUR_CHOICES\<close>, the resource class \<open>BackupSchedule\<close>, its manager
  \<open>BackupScheduleManager\<close> and the two command handlers \<open>do_backup_schedule\<close> and
  \<open>do_backup_schedule_delete\<close>.

  Python values that travel in a schedule document are dynamically typed; the ones the
  module handles are \<open>None\<close>, booleans, integers and strings. A schedule document is a
  flat \<open>dict\<close>, modelled as an association list in insertion order; a request or
  response body is a \<open>dict\<close> of such documents.
\<close>

datatype pyval = PyNone | PyBool bool | PyInt int | PyStr string

type_synonym doc = "(string \<times> pyval) list"

type_synonym body = "(string \<times> doc) list"

text \<open>The HTTP requests the module issues through the client: method, URL and, for POST, the body.\<close>

datatype request = GET string | POST string body | DELETE string

text \<open>
  Exceptions as values. \<open>CommandError\<close> is what \<open>utils.find_resource\<close> raises,
  \<open>ClientException\<close> what the HTTP client raises on a failed request, \<open>KeyError\<close> a
  missing key of a \<open>dict\<close>, \<open>TypeError\<close> an unexpected keyword argument or a call of
  a value that is no function, \<open>AttributeError\<close> the use of a method that a value does not
  have, and \<open>ArgumentError\<close> the argument parser's rejection of an option value, as the
  shell reports it: the option string naming the argument and the rejected value.
\<close>

datatype error =
    CommandError string
  | ClientException nat
  | KeyError string
  | TypeError string
  | AttributeError string
  | ArgumentError string string

text \<open>A server resource; \<open>server_id\<close> is the text that \<open>'%s' % server.id\<close> produces.\<close>

record server =
  server_id :: string

text \<open>
  The collaborators that the handlers receive as \<open>cs\<close>: the lookup behind
  \<open>utils.find_resource(cs.servers, name)\<close>, and the remote API behind
  \<open>api.client\<close>, whose reply to a request may depend on the requests sent before.
  A reply is a body or an exception; the body of the reply to POST and DELETE is not read.
\<close>

record client =
  find_resource :: "string \<Rightarrow> error + server"
  respond :: "request list \<Rightarrow> request \<Rightarrow> error + body"

text \<open>
  A \<open>BackupSchedule\<close> resource: the document it was built from, and the server that the
  manager attaches to it. The constructor of a resource stores the document and then sets
  every key of the document as an attribute of the instance; what that does to the
  attributes the module reads is written out where they are read (\<open>shadowed\<close> below).
\<close>

record BackupSchedule =
  info :: doc
  server :: server

text \<open>The namespace \<open>args\<close> that the argument parser hands to \<open>do_backup_schedule\<close>.\<close>

record args =
  args_server :: string
  args_enabled :: "bool option"
  args_weekly :: "string option"
  args_daily :: "string option"
  args_rotation :: "string option"

text \<open>What a handler prints: nothing, or the dictionary given to \<open>utils.print_dict\<close>.\<close>

datatype shown = Silent | Printed doc

section \<open>Vocabularies and rendering\<close>

definition DAY_CHOICES :: "string list" where
  "DAY_CHOICES = [''DISABLED'', ''SUNDAY'', ''MONDAY'', ''TUESDAY'', ''WEDNESDAY'',
                  ''THURSDAY'', ''FRIDAY'', ''SATURDAY'']"

definition HOUR_CHOICES :: "string list" where
  "HOUR_CHOICES = [''DISABLED'', ''H_0000_0200'', ''H_0200_0400'', ''H_0400_0600'',
                   ''H_0600_0800'', ''H_0800_1000'', ''H_1000_1200'', ''H_1200_1400'',
                   ''H_1400_1600'', ''H_1600_1800'', ''H_1800_2000'', ''H_2000_2200'',
                   ''H_2200_0000'']"

text \<open>\<open>sep.join(xs)\<close>.\<close>

fun join :: "string \<Rightarrow> string list \<Rightarrow> string" where
  "join sep [] = []"
| "join sep [x] = x"
| "join sep (x # y # ys) = x @ sep @ join sep (y # ys)"

text \<open>\<open>"'%s'" % i\<close> for a string \<open>i\<close>.\<close>

definition quoted :: "string \<Rightarrow> string" where
  "quoted i = [CHR 0x27] @ i @ [CHR 0x27]"

definition pretty_choice_list :: "string list \<Rightarrow> string" where
  "pretty_choice_list l = join '', '' (map quoted l)"

text \<open>
  The help texts of \<open>--weekly\<close> and \<open>--daily\<close>, the two places where the module calls
  \<open>pretty_choice_list\<close>.
\<close>

definition weekly_help :: string where
  "weekly_help =
     ''Schedule a weekly backup for <day> (one of: '' @ pretty_choice_list DAY_CHOICES @ '').''"

definition daily_help :: string where
  "daily_help =
     ''Schedule a daily backup during <time-window> (one of: '' @
     pretty_choice_list HOUR_CHOICES @ '').''"

text \<open>
  Text within ASCII: every character is below 128. A \<open>char\<close> is a byte, so text beyond
  ASCII is outside what a \<open>string\<close> here stands for.
\<close>

definition ascii :: "string \<Rightarrow> bool" where
  "ascii s = list_all (\<lambda>c. (of_char c :: nat) < 128) s"

text \<open>
  \<open>str.upper()\<close> on ASCII text: the letters \<open>a\<close> to \<open>z\<close> move to \<open>A\<close> to \<open>Z\<close>,
  every other character stays. On text beyond ASCII Python's result depends on the
  string type (a byte string keeps such characters, a Unicode string maps them by the
  Unicode tables), so a statement that applies \<open>upper\<close> to a value that is not fixed
  assumes \<open>ascii\<close> of it.
\<close>

definition char_upper :: "char \<Rightarrow> char" where
  "char_upper c =
     (case map_of (zip ''abcdefghijklmnopqrstuvwxyz'' ''ABCDEFGHIJKLMNOPQRSTUVWXYZ'') c of
        None \<Rightarrow> c
      | Some C \<Rightarrow> C)"

definition upper :: "string \<Rightarrow> string" where
  "upper s = map char_upper s"

section \<open>The HTTP client and the manager\<close>

text \<open>
  The state threaded through every operation is the list of requests sent so far, oldest
  first. An operation returns its result, or the exception it raised, with the new list.
\<close>

definition http :: "client \<Rightarrow> request \<Rightarrow> request list \<Rightarrow> (error + body) \<times> request list" where
  "http cs req sent = (respond cs sent req, sent @ [req])"

text \<open>\<open>'/servers/%s/backup_schedule' % server.id\<close>.\<close>

definition schedule_url :: "server \<Rightarrow> string" where
  "schedule_url srv = ''/servers/'' @ server_id srv @ ''/backup_schedule''"

text \<open>
  \<open>BackupScheduleManager.get\<close>: \<open>_get(url, 'backupSchedule')\<close> sends the GET and builds
  the resource from \<open>body['backupSchedule']\<close>, and the server is attached. The resource
  carries the document; the attributes that the document's keys set on it are accounted
  for by \<open>shadowed\<close>, where the handlers use the resource.
\<close>

definition BackupScheduleManager_get ::
  "client \<Rightarrow> server \<Rightarrow> request list \<Rightarrow> (error + BackupSchedule) \<times> request list" where
  "BackupScheduleManager_get cs srv sent =
     (case http cs (GET (schedule_url srv)) sent of
        (Inl e, sent') \<Rightarrow> (Inl e, sent')
      | (Inr b, sent') \<Rightarrow>
          (case map_of b ''backupSchedule'' of
             None \<Rightarrow> (Inl (KeyError ''backupSchedule''), sent')
           | Some d \<Rightarrow> (Inr \<lparr>info = d, server = srv\<rparr>, sent')))"

text \<open>\<open>BackupScheduleManager.create\<close>: the four arguments become the document, sent by POST.\<close>

definition BackupScheduleManager_create ::
  "client \<Rightarrow> server \<Rightarrow> pyval \<Rightarrow> pyval \<Rightarrow> pyval \<Rightarrow> pyval \<Rightarrow> request list
     \<Rightarrow> (error + unit) \<times> request list" where
  "BackupScheduleManager_create cs srv enabled weekly daily rotation sent =
     (let backup_schedule = [(''enabled'', enabled), (''weekly'', weekly),
                             (''daily'', daily), (''rotation'', rotation)]
      in case http cs (POST (schedule_url srv) [(''backupSchedule'', backup_schedule)]) sent of
           (Inl e, sent') \<Rightarrow> (Inl e, sent')
         | (Inr b, sent') \<Rightarrow> (Inr (), sent'))"

text \<open>\<open>update = create\<close> in the class body.\<close>

definition BackupScheduleManager_update ::
  "client \<Rightarrow> server \<Rightarrow> pyval \<Rightarrow> pyval \<Rightarrow> pyval \<Rightarrow> pyval \<Rightarrow> request list
     \<Rightarrow> (error + unit) \<times> request list" where
  "BackupScheduleManager_update = BackupScheduleManager_create"

text \<open>\<open>BackupScheduleManager.delete\<close>: \<open>_delete(url)\<close>.\<close>

definition BackupScheduleManager_delete ::
  "client \<Rightarrow> server \<Rightarrow> request list \<Rightarrow> (error + unit) \<times> request list" where
  "BackupScheduleManager_delete cs srv sent =
     (case http cs (DELETE (schedule_url srv)) sent of
        (Inl e, sent') \<Rightarrow> (Inl e, sent')
      | (Inr b, sent') \<Rightarrow> (Inr (), sent'))"

section \<open>The resource\<close>

text \<open>
  An attribute of the resource that a key of its document has replaced: the constructor
  runs \<open>setattr(self, k, v)\<close> for every item of the document, so a key \<open>update\<close> or
  \<open>delete\<close> hides the method of that name, a key \<open>manager\<close> replaces the manager and a
  key \<open>_info\<close> replaces the stored document. The value found there is a value of the
  document: it cannot be called, and it has neither the methods of a manager nor the
  items of a dictionary. (A key \<open>server\<close> is harmless: the manager's \<open>get\<close> sets
  \<open>server\<close> after the constructor has run.)
\<close>

definition shadowed :: "BackupSchedule \<Rightarrow> string \<Rightarrow> bool" where
  "shadowed self name = (name \<in> fst ` set (info self))"

text \<open>
  Binding a parameter that has a default value in a call made with the keyword arguments
  \<open>kw\<close>: the keyword's value when the keyword is given, the default otherwise.
\<close>

definition param :: "doc \<Rightarrow> string \<Rightarrow> pyval \<Rightarrow> pyval" where
  "param kw name dflt = (case map_of kw name of None \<Rightarrow> dflt | Some v \<Rightarrow> v)"

text \<open>
  The call \<open>backup_schedule.update(**kw)\<close> of
  \<open>BackupSchedule.update(self, enabled=True, weekly='disabled', daily='disabled',
  rotation=0)\<close>. When a key of the document hides the method, the call is a call of
  that value and raises \<open>TypeError\<close>. Otherwise a keyword that is no parameter raises
  \<open>TypeError\<close>, a parameter without keyword takes its default, and the body calls
  \<open>self.manager.create\<close> with the resource's server, which raises \<open>AttributeError\<close>
  when a key of the document has replaced the manager.
\<close>

definition BackupSchedule_update ::
  "client \<Rightarrow> BackupSchedule \<Rightarrow> doc \<Rightarrow> request list \<Rightarrow> (error + unit) \<times> request list" where
  "BackupSchedule_update cs self kw sent =
     (if shadowed self ''update'' then (Inl (TypeError ''update''), sent)
      else
        (case filter (\<lambda>k. k \<notin> set [''enabled'', ''weekly'', ''daily'', ''rotation''])
                (map fst kw) of
           k # ks \<Rightarrow> (Inl (TypeError k), sent)
         | [] \<Rightarrow>
             if shadowed self ''manager'' then (Inl (AttributeError ''create''), sent)
             else
               BackupScheduleManager_create cs (server self)
                 (param kw ''enabled'' (PyBool True))
                 (param kw ''weekly'' (PyStr ''disabled''))
                 (param kw ''daily'' (PyStr ''disabled''))
                 (param kw ''rotation'' (PyInt 0))
                 sent))"

text \<open>
  The call \<open>backup_schedule.delete()\<close> of \<open>BackupSchedule.delete\<close>, whose body calls
  \<open>self.manager.delete\<close>; a key of the document that hides the method or replaces the
  manager makes it raise in the same two ways.
\<close>

definition BackupSchedule_delete ::
  "client \<Rightarrow> BackupSchedule \<Rightarrow> request list \<Rightarrow> (error + unit) \<times> request list" where
  "BackupSchedule_delete cs self sent =
     (if shadowed self ''delete'' then (Inl (TypeError ''delete''), sent)
      else if shadowed self ''manager'' then (Inl (AttributeError ''delete''), sent)
      else BackupScheduleManager_delete cs (server self) sent)"

text \<open>
  The attribute \<open>_info\<close> as \<open>utils.print_dict\<close> receives it. \<open>print_dict\<close> goes through
  the items of its argument; the value that a key \<open>_info\<close> of the document has put there
  has none, and the call raises.
\<close>

definition print_dict_info :: "BackupSchedule \<Rightarrow> error + shown" where
  "print_dict_info self =
     (if shadowed self ''_info'' then Inl (AttributeError ''items'')
      else Inr (Printed (info self)))"

section \<open>The command handlers\<close>

text \<open>Truth value of an optional string: \<open>None\<close> and the empty string are false.\<close>

definition truthy :: "string option \<Rightarrow> bool" where
  "truthy v = (case v of None \<Rightarrow> False | Some s \<Rightarrow> s \<noteq> [])"

text \<open>
  The dictionary \<open>backup\<close> that \<open>do_backup_schedule\<close> fills from the flags, in the
  order of its four \<open>if\<close> statements.
\<close>

definition backup_of_args :: "args \<Rightarrow> doc" where
  "backup_of_args a =
     (let backup = [];
          backup = (if truthy (args_daily a)
                    then AList.update ''daily'' (PyStr (upper (the (args_daily a)))) backup
                    else backup);
          backup = (if truthy (args_weekly a)
                    then AList.update ''weekly'' (PyStr (upper (the (args_weekly a)))) backup
                    else backup);
          backup = (case args_enabled a of
                      Some e \<Rightarrow> AList.update ''enabled'' (PyBool e) backup
                    | None \<Rightarrow> backup);
          backup = (case args_rotation a of
                      Some r \<Rightarrow> AList.update ''rotation'' (PyStr r) backup
                    | None \<Rightarrow> backup)
      in backup)"

definition do_backup_schedule ::
  "client \<Rightarrow> args \<Rightarrow> request list \<Rightarrow> (error + shown) \<times> request list" where
  "do_backup_schedule cs a sent =
     (case find_resource cs (args_server a) of
        Inl e \<Rightarrow> (Inl e, sent)
      | Inr srv \<Rightarrow>
          (case BackupScheduleManager_get cs srv sent of
             (Inl e, sent') \<Rightarrow> (Inl e, sent')
           | (Inr backup_schedule, sent') \<Rightarrow>
               (let backup = backup_of_args a
                in if backup \<noteq> []
                   then (case BackupSchedule_update cs backup_schedule backup sent' of
                           (Inl e, sent'') \<Rightarrow> (Inl e, sent'')
                         | (Inr u, sent'') \<Rightarrow> (Inr Silent, sent''))
                   else (print_dict_info backup_schedule, sent'))))"

definition do_backup_schedule_delete ::
  "client \<Rightarrow> string \<Rightarrow> request list \<Rightarrow> (error + shown) \<times> request list" where
  "do_backup_schedule_delete cs name sent =
     (case find_resource cs name of
        Inl e \<Rightarrow> (Inl e, sent)
      | Inr srv \<Rightarrow>
          (case BackupScheduleManager_get cs srv sent of
             (Inl e, sent') \<Rightarrow> (Inl e, sent')
           | (Inr backup_schedule, sent') \<Rightarrow>
               (case BackupSchedule_delete cs backup_schedule sent' of
                  (Inl e, sent'') \<Rightarrow> (Inl e, sent'')
                | (Inr u, sent'') \<Rightarrow> (Inr Silent, sent''))))"

section \<open>The argument parser\<close>

text \<open>
  The decorators of \<open>do_backup_schedule\<close> declare the options of the command for the
  standard argument parser: \<open>--enable\<close> (\<open>store_true\<close>, default \<open>None\<close>) and
  \<open>--disable\<close> (\<open>store_false\<close>) write the same destination \<open>enabled\<close>;
  \<open>--weekly\<close> and \<open>--daily\<close> store a string restricted by \<open>choices=\<close>;
  \<open>--rotation\<close> stores a string as it is.

  A \<open>flag\<close> is one argument of the command line: \<open>--enable\<close>, \<open>--disable\<close>,
  \<open>--weekly=v\<close>, \<open>--daily=v\<close> or \<open>--rotation=v\<close>. In this form the parser hands the
  text after the equals sign to the option, whatever it is. The form in two arguments,
  \<open>--rotation v\<close>, reaches the option with the same value when \<open>v\<close> does not begin with
  a hyphen; a second argument that the parser takes for an option of its own is refused
  before any option sees it, and is not a \<open>flag\<close>.
\<close>

datatype flag = Enable | Disable | Weekly string | Daily string | Rotation string

text \<open>
  The parser's check of a value against \<open>choices=\<close>: the value must be an element of
  the list (Python's \<open>in\<close>, equality of strings, so case matters). The rejection that the
  command reports names the option and repeats the value. It does not list the choices:
  the shell's \<open>error\<close> cuts the parser's message off where the list would begin.
\<close>

definition check_value :: "string \<Rightarrow> string list \<Rightarrow> string \<Rightarrow> error + string" where
  "check_value option_string choices v =
     (if v \<in> set choices then Inr v else Inl (ArgumentError option_string v))"

fun take_flag :: "flag \<Rightarrow> args \<Rightarrow> error + args" where
  "take_flag Enable a = Inr (a\<lparr>args_enabled := Some True\<rparr>)"
| "take_flag Disable a = Inr (a\<lparr>args_enabled := Some False\<rparr>)"
| "take_flag (Weekly v) a =
     (case check_value ''--weekly'' DAY_CHOICES v of
        Inl e \<Rightarrow> Inl e
      | Inr w \<Rightarrow> Inr (a\<lparr>args_weekly := Some w\<rparr>))"
| "take_flag (Daily v) a =
     (case check_value ''--daily'' HOUR_CHOICES v of
        Inl e \<Rightarrow> Inl e
      | Inr d \<Rightarrow> Inr (a\<lparr>args_daily := Some d\<rparr>))"
| "take_flag (Rotation v) a = Inr (a\<lparr>args_rotation := Some v\<rparr>)"

text \<open>The options are taken in the order given; the first rejection ends the parse.\<close>

fun take_flags :: "flag list \<Rightarrow> args \<Rightarrow> error + args" where
  "take_flags [] a = Inr a"
| "take_flags (f # fs) a =
     (case take_flag f a of Inl e \<Rightarrow> Inl e | Inr a' \<Rightarrow> take_flags fs a')"

text \<open>Every destination starts as \<open>None\<close>; the positional argument is the server.\<close>

definition parse_args :: "string \<Rightarrow> flag list \<Rightarrow> error + args" where
  "parse_args name flags =
     take_flags flags
       \<lparr>args_server = name, args_enabled = None, args_weekly = None,
        args_daily = None, args_rotation = None\<rparr>"

text \<open>The command as the shell runs it: parse, then call the handler with the namespace.\<close>

definition backup_schedule_command ::
  "client \<Rightarrow> string \<Rightarrow> flag list \<Rightarrow> request list \<Rightarrow> (error + shown) \<times> request list" where
  "backup_schedule_command cs name flags sent =
     (case parse_args name flags of
        Inl e \<Rightarrow> (Inl e, sent)
      | Inr a \<Rightarrow> do_backup_schedule cs a sent)"

section \<open>A concrete server, schedule and client\<close>

definition example_server :: server where
  "example_server = \<lparr>server_id = ''1234''\<rparr>"

definition example_schedule :: doc where
  "example_schedule = [(''enabled'', PyBool True), (''weekly'', PyStr ''SUNDAY''),
                       (''daily'', PyStr ''DISABLED''), (''rotation'', PyInt 2)]"

text \<open>
  A client that knows one server, \<open>web1\<close>, and a remote that answers every GET with
  \<open>example_schedule\<close> and every POST and DELETE with an empty body.
\<close>

definition example_client :: client where
  "example_client =
     \<lparr>find_resource = (\<lambda>name. if name = ''web1'' then Inr example_server
                               else Inl (CommandError name)),
      respond = (\<lambda>sent req. case req of
                               GET u \<Rightarrow> Inr [(''backupSchedule'', example_schedule)]
                             | POST u b \<Rightarrow> Inr []
                             | DELETE u \<Rightarrow> Inr [])\<rparr>"

definition no_flags :: args where
  "no_flags = \<lparr>args_server = ''web1'', args_enabled = None, args_weekly = None,
               args_daily = None, args_rotation = None\<rparr>"

section \<open>The parser's invariant\<close>

text \<open>The invariant of the namespace while the parser fills it: a stored weekly or daily value is a choice.\<close>

definition choices_ok :: "args \<Rightarrow> bool" where
  "choices_ok a =
     ((case args_weekly a of None \<Rightarrow> True | Some w \<Rightarrow> w \<in> set DAY_CHOICES) \<and>
      (case args_daily a of None \<Rightarrow> True | Some d \<Rightarrow> d \<in> set HOUR_CHOICES))"

section \<open>The manager's requests\<close>

lemma create_sends:
  "snd (BackupScheduleManager_create cs srv e w d r sent) =
     sent @ [POST (schedule_url srv)
               [(''backupSchedule'',
                 [(''enabled'', e), (''weekly'', w), (''daily'', d), (''rotation'', r)])]]"
  by (simp add: BackupScheduleManager_create_def http_def Let_def split: sum.splits)

lemma get_sends:
  "snd (BackupScheduleManager_get cs srv sent) = sent @ [GET (schedule_url srv)]"
  by (simp add: BackupScheduleManager_get_def http_def split: sum.splits option.splits)

lemma get_result:
  "fst (BackupScheduleManager_get cs srv sent) =
     (case respond cs sent (GET (schedule_url srv)) of
        Inl e \<Rightarrow> Inl e
      | Inr b \<Rightarrow> (case map_of b ''backupSchedule'' of
                    None \<Rightarrow> Inl (KeyError ''backupSchedule'')
                  | Some d \<Rightarrow> Inr \<lparr>info = d, server = srv\<rparr>))"
  by (simp add: BackupScheduleManager_get_def http_def split: sum.splits option.splits)

lemma get_server:
  "fst (BackupScheduleManager_get cs srv sent) = Inr bs \<Longrightarrow> server bs = srv"
  by (auto simp add: get_result split: sum.splits option.splits)

lemma get_pair:
  "fst (BackupScheduleManager_get cs srv sent) = r \<Longrightarrow>
     BackupScheduleManager_get cs srv sent = (r, sent @ [GET (schedule_url srv)])"
  using get_sends [of cs srv sent] by (cases "BackupScheduleManager_get cs srv sent") simp

lemma delete_sends:
  "snd (BackupScheduleManager_delete cs srv sent) = sent @ [DELETE (schedule_url srv)]"
  by (simp add: BackupScheduleManager_delete_def http_def split: sum.splits)

section \<open>The resource's calls\<close>

lemma backup_keys:
  "filter (\<lambda>k. k \<notin> set [''enabled'', ''weekly'', ''daily'', ''rotation''])
     (map fst (backup_of_args a)) = []"
  by (simp add: backup_of_args_def Let_def split: option.splits)

lemma update_sends:
  assumes "filter (\<lambda>k. k \<notin> set [''enabled'', ''weekly'', ''daily'', ''rotation'']) (map fst kw) = []"
      and "\<not> shadowed self ''update''" and "\<not> shadowed self ''manager''"
  shows "snd (BackupSchedule_update cs self kw sent) =
     sent @ [POST (schedule_url (server self))
               [(''backupSchedule'',
                 [(''enabled'', param kw ''enabled'' (PyBool True)),
                  (''weekly'', param kw ''weekly'' (PyStr ''disabled'')),
                  (''daily'', param kw ''daily'' (PyStr ''disabled'')),
                  (''rotation'', param kw ''rotation'' (PyInt 0))])]]"
  using assms by (simp add: BackupSchedule_update_def create_sends)

lemma update_result:
  assumes "filter (\<lambda>k. k \<notin> set [''enabled'', ''weekly'', ''daily'', ''rotation'']) (map fst kw) = []"
      and "\<not> shadowed self ''update''" and "\<not> shadowed self ''manager''"
  shows "fst (BackupSchedule_update cs self kw sent) =
     (case respond cs sent
             (POST (schedule_url (server self))
               [(''backupSchedule'',
                 [(''enabled'', param kw ''enabled'' (PyBool True)),
                  (''weekly'', param kw ''weekly'' (PyStr ''disabled'')),
                  (''daily'', param kw ''daily'' (PyStr ''disabled'')),
                  (''rotation'', param kw ''rotation'' (PyInt 0))])]) of
        Inl e \<Rightarrow> Inl e
      | Inr b \<Rightarrow> Inr ())"
  using assms
  by (simp add: BackupSchedule_update_def BackupScheduleManager_create_def http_def Let_def
      split: sum.splits)

text \<open>Whatever the document holds, \<open>update\<close> sends nothing or one POST to the schedule's URL.\<close>

lemma update_trace:
  "snd (BackupSchedule_update cs self kw sent) = sent \<or>
   (\<exists>b. snd (BackupSchedule_update cs self kw sent) =
          sent @ [POST (schedule_url (server self)) b])"
proof (cases "shadowed self ''update'' \<or> shadowed self ''manager'' \<or>
    filter (\<lambda>k. k \<notin> set [''enabled'', ''weekly'', ''daily'', ''rotation'']) (map fst kw) \<noteq> []")
  case True
  then have "snd (BackupSchedule_update cs self kw sent) = sent"
    by (auto simp add: BackupSchedule_update_def split: list.splits)
  then show ?thesis by simp
next
  case False
  then show ?thesis using update_sends [of kw self cs sent] by simp
qed

lemma delete_trace:
  "snd (BackupSchedule_delete cs self sent) = sent \<or>
   snd (BackupSchedule_delete cs self sent) = sent @ [DELETE (schedule_url (server self))]"
  by (simp add: BackupSchedule_delete_def delete_sends)

lemma param_enabled:
  "param (backup_of_args a) ''enabled'' dflt =
     (case args_enabled a of None \<Rightarrow> dflt | Some e \<Rightarrow> PyBool e)"
  by (simp add: param_def backup_of_args_def Let_def split: option.splits)

lemma param_rotation:
  "param (backup_of_args a) ''rotation'' dflt =
     (case args_rotation a of None \<Rightarrow> dflt | Some r \<Rightarrow> PyStr r)"
  by (simp add: param_def backup_of_args_def Let_def split: option.splits)

lemma param_weekly:
  "param (backup_of_args a) ''weekly'' dflt =
     (if truthy (args_weekly a) then PyStr (upper (the (args_weekly a))) else dflt)"
  by (simp add: param_def backup_of_args_def Let_def split: option.splits)

lemma param_daily:
  "param (backup_of_args a) ''daily'' dflt =
     (if truthy (args_daily a) then PyStr (upper (the (args_daily a))) else dflt)"
  by (simp add: param_def backup_of_args_def Let_def split: option.splits)

section \<open>The handler, branch by branch\<close>

lemma handler_unresolved:
  "find_resource cs (args_server a) = Inl e \<Longrightarrow> do_backup_schedule cs a sent = (Inl e, sent)"
  by (simp add: do_backup_schedule_def)

lemma handler_get_failed:
  assumes "find_resource cs (args_server a) = Inr srv"
      and "fst (BackupScheduleManager_get cs srv sent) = Inl e"
  shows "do_backup_schedule cs a sent = (Inl e, sent @ [GET (schedule_url srv)])"
  using assms(1) get_pair [OF assms(2)] by (simp add: do_backup_schedule_def)

lemma handler_fetched:
  assumes "find_resource cs (args_server a) = Inr srv"
      and "fst (BackupScheduleManager_get cs srv sent) = Inr bs"
  shows "do_backup_schedule cs a sent =
     (if backup_of_args a \<noteq> []
      then (case BackupSchedule_update cs bs (backup_of_args a) (sent @ [GET (schedule_url srv)]) of
              (Inl e, sent'') \<Rightarrow> (Inl e, sent'')
            | (Inr u, sent'') \<Rightarrow> (Inr Silent, sent''))
      else (print_dict_info bs, sent @ [GET (schedule_url srv)]))"
  using assms(1) get_pair [OF assms(2)] by (simp add: do_backup_schedule_def Let_def)

lemma handler_fetched_trace:
  assumes "find_resource cs (args_server a) = Inr srv"
      and "fst (BackupScheduleManager_get cs srv sent) = Inr bs"
  shows "snd (do_backup_schedule cs a sent) =
     (if backup_of_args a \<noteq> []
      then snd (BackupSchedule_update cs bs (backup_of_args a) (sent @ [GET (schedule_url srv)]))
      else sent @ [GET (schedule_url srv)])"
  by (simp add: handler_fetched [OF assms] split: prod.splits sum.splits)

lemma handler_fetched_result:
  assumes "find_resource cs (args_server a) = Inr srv"
      and "fst (BackupScheduleManager_get cs srv sent) = Inr bs"
      and "backup_of_args a \<noteq> []"
  shows "fst (do_backup_schedule cs a sent) =
     (case fst (BackupSchedule_update cs bs (backup_of_args a) (sent @ [GET (schedule_url srv)])) of
        Inl e \<Rightarrow> Inl e
      | Inr u \<Rightarrow> Inr Silent)"
  using assms(3) by (simp add: handler_fetched [OF assms(1,2)] split: prod.splits sum.splits)

lemma handler_update:
  assumes "find_resource cs (args_server a) = Inr srv"
      and "fst (BackupScheduleManager_get cs srv sent) = Inr bs"
      and "\<not> shadowed bs ''update''" and "\<not> shadowed bs ''manager''"
      and "backup_of_args a \<noteq> []"
  shows "snd (do_backup_schedule cs a sent) =
     sent @ [GET (schedule_url srv),
             POST (schedule_url srv)
               [(''backupSchedule'',
                 [(''enabled'', param (backup_of_args a) ''enabled'' (PyBool True)),
                  (''weekly'', param (backup_of_args a) ''weekly'' (PyStr ''disabled'')),
                  (''daily'', param (backup_of_args a) ''daily'' (PyStr ''disabled'')),
                  (''rotation'', param (backup_of_args a) ''rotation'' (PyInt 0))])]]"
  using assms(5) get_server [OF assms(2)]
  by (simp add: handler_fetched_trace [OF assms(1,2)] update_sends [OF backup_keys assms(3,4)])

lemma handler_update_result:
  assumes "find_resource cs (args_server a) = Inr srv"
      and "fst (BackupScheduleManager_get cs srv sent) = Inr bs"
      and "\<not> shadowed bs ''update''" and "\<not> shadowed bs ''manager''"
      and "backup_of_args a \<noteq> []"
  shows "fst (do_backup_schedule cs a sent) =
     (case respond cs (sent @ [GET (schedule_url srv)])
             (POST (schedule_url srv)
               [(''backupSchedule'',
                 [(''enabled'', param (backup_of_args a) ''enabled'' (PyBool True)),
                  (''weekly'', param (backup_of_args a) ''weekly'' (PyStr ''disabled'')),
                  (''daily'', param (backup_of_args a) ''daily'' (PyStr ''disabled'')),
                  (''rotation'', param (backup_of_args a) ''rotation'' (PyInt 0))])]) of
        Inl e \<Rightarrow> Inl e
      | Inr b \<Rightarrow> Inr Silent)"
  using get_server [OF assms(2)]
  by (simp add: handler_fetched_result [OF assms(1,2,5)] update_result [OF backup_keys assms(3,4)]
      split: sum.splits)


text \<open>
  The failing branches: a fetched document with a key \<open>update\<close> or \<open>manager\<close> makes the
  handler raise after the GET, and nothing is written.
\<close>

lemma handler_shadowed:
  assumes "find_resource cs (args_server a) = Inr srv"
      and "fst (BackupScheduleManager_get cs srv sent) = Inr bs"
      and "shadowed bs ''update'' \<or> shadowed bs ''manager''"
      and "backup_of_args a \<noteq> []"
  shows "\<exists>e. do_backup_schedule cs a sent = (Inl e, sent @ [GET (schedule_url srv)])"
  using assms(3,4) backup_keys [of a]
  by (auto simp add: handler_fetched [OF assms(1,2)] BackupSchedule_update_def)

section \<open>What the handler puts into the dictionary and what the parser lets through\<close>

lemma upper_day: "w \<in> set DAY_CHOICES \<Longrightarrow> upper w = w"
  by (auto simp add: DAY_CHOICES_def upper_def char_upper_def)

lemma upper_hour: "d \<in> set HOUR_CHOICES \<Longrightarrow> upper d = d"
  by (auto simp add: HOUR_CHOICES_def upper_def char_upper_def)

lemma day_nonempty: "w \<in> set DAY_CHOICES \<Longrightarrow> w \<noteq> []"
  by (auto simp add: DAY_CHOICES_def)

lemma hour_nonempty: "d \<in> set HOUR_CHOICES \<Longrightarrow> d \<noteq> []"
  by (auto simp add: HOUR_CHOICES_def)

lemma backup_nonempty:
  "backup_of_args a \<noteq> [] \<longleftrightarrow>
     truthy (args_daily a) \<or> truthy (args_weekly a) \<or> args_enabled a \<noteq> None \<or>
     args_rotation a \<noteq> None"
  by (simp add: backup_of_args_def Let_def split: option.splits)

lemma take_flag_Inr:
  "take_flag f a = Inr a' \<Longrightarrow>
     (case f of
        Enable \<Rightarrow> a' = a\<lparr>args_enabled := Some True\<rparr>
      | Disable \<Rightarrow> a' = a\<lparr>args_enabled := Some False\<rparr>
      | Weekly v \<Rightarrow> v \<in> set DAY_CHOICES \<and> a' = a\<lparr>args_weekly := Some v\<rparr>
      | Daily v \<Rightarrow> v \<in> set HOUR_CHOICES \<and> a' = a\<lparr>args_daily := Some v\<rparr>
      | Rotation v \<Rightarrow> a' = a\<lparr>args_rotation := Some v\<rparr>)"
  by (cases f) (auto simp add: check_value_def split: if_splits)

lemma take_flag_ok:
  assumes "take_flag f a = Inr a'" and "choices_ok a"
  shows "choices_ok a'"
  using take_flag_Inr [OF assms(1)] assms(2)
  by (cases f) (auto simp add: choices_ok_def split: option.splits)

lemma take_flag_server:
  assumes "take_flag f a = Inr a'"
  shows "args_server a' = args_server a"
  using take_flag_Inr [OF assms] by (cases f) auto

lemma take_flag_nonempty:
  assumes "take_flag f a = Inr a'"
  shows "backup_of_args a' \<noteq> []"
  using take_flag_Inr [OF assms]
  by (cases f) (auto simp add: backup_nonempty truthy_def day_nonempty hour_nonempty)

lemma take_flags_append:
  "take_flags (fs @ gs) a =
     (case take_flags fs a of Inl e \<Rightarrow> Inl e | Inr a' \<Rightarrow> take_flags gs a')"
  by (induction fs arbitrary: a) (auto split: sum.splits)

lemma take_flags_ok:
  "take_flags fs a = Inr a' \<Longrightarrow> choices_ok a \<Longrightarrow> choices_ok a'"
proof (induction fs arbitrary: a)
  case Nil
  then show ?case by simp
next
  case (Cons f fs)
  then show ?case by (auto split: sum.splits dest: take_flag_ok)
qed

lemma take_flags_server:
  "take_flags fs a = Inr a' \<Longrightarrow> args_server a' = args_server a"
proof (induction fs arbitrary: a)
  case Nil
  then show ?case by simp
next
  case (Cons f fs)
  then show ?case by (auto split: sum.splits dest: take_flag_server)
qed

lemma take_flags_nonempty:
  "take_flags fs a = Inr a' \<Longrightarrow> fs \<noteq> [] \<or> backup_of_args a \<noteq> [] \<Longrightarrow> backup_of_args a' \<noteq> []"
proof (induction fs arbitrary: a)
  case Nil
  then show ?case by simp
next
  case (Cons f fs)
  from Cons.prems(1) obtain b where b: "take_flag f a = Inr b" and r: "take_flags fs b = Inr a'"
    by (auto split: sum.splits)
  from b have "backup_of_args b \<noteq> []" by (rule take_flag_nonempty)
  with Cons.IH [OF r] show ?case by simp
qed

lemma take_flags_keep_weekly:
  "args_weekly c \<noteq> None \<Longrightarrow> take_flags gs c = Inr c' \<Longrightarrow> args_weekly c' \<noteq> None"
proof (induction gs arbitrary: c)
  case Nil
  then show ?case by simp
next
  case (Cons g gs)
  from Cons.prems(2) obtain m where m: "take_flag g c = Inr m" and r: "take_flags gs m = Inr c'"
    by (auto split: sum.splits)
  from take_flag_Inr [OF m] Cons.prems(1) have "args_weekly m \<noteq> None"
    by (cases g) auto
  with Cons.IH r show ?case by blast
qed

lemma take_flags_keep_daily:
  "args_daily c \<noteq> None \<Longrightarrow> take_flags gs c = Inr c' \<Longrightarrow> args_daily c' \<noteq> None"
proof (induction gs arbitrary: c)
  case Nil
  then show ?case by simp
next
  case (Cons g gs)
  from Cons.prems(2) obtain m where m: "take_flag g c = Inr m" and r: "take_flags gs m = Inr c'"
    by (auto split: sum.splits)
  from take_flag_Inr [OF m] Cons.prems(1) have "args_daily m \<noteq> None"
    by (cases g) auto
  with Cons.IH r show ?case by blast
qed

lemma take_flags_weekly:
  "take_flags fs a = Inr a' \<Longrightarrow> Weekly x \<in> set fs \<Longrightarrow> args_weekly a' \<noteq> None"
proof (induction fs arbitrary: a)
  case Nil
  then show ?case by simp
next
  case (Cons f fs)
  from Cons.prems(1) obtain b where b: "take_flag f a = Inr b" and r: "take_flags fs b = Inr a'"
    by (auto split: sum.splits)
  show ?case
  proof (cases "Weekly x \<in> set fs")
    case True
    with Cons.IH [OF r] show ?thesis by simp
  next
    case False
    with Cons.prems(2) have f: "f = Weekly x" by simp
    with take_flag_Inr [OF b] have "args_weekly b \<noteq> None" by simp
    then show ?thesis using r by (rule take_flags_keep_weekly)
  qed
qed

lemma take_flags_daily:
  "take_flags fs a = Inr a' \<Longrightarrow> Daily x \<in> set fs \<Longrightarrow> args_daily a' \<noteq> None"
proof (induction fs arbitrary: a)
  case Nil
  then show ?case by simp
next
  case (Cons f fs)
  from Cons.prems(1) obtain b where b: "take_flag f a = Inr b" and r: "take_flags fs b = Inr a'"
    by (auto split: sum.splits)
  show ?case
  proof (cases "Daily x \<in> set fs")
    case True
    with Cons.IH [OF r] show ?thesis by simp
  next
    case False
    with Cons.prems(2) have f: "f = Daily x" by simp
    with take_flag_Inr [OF b] have "args_daily b \<noteq> None" by simp
    then show ?thesis using r by (rule take_flags_keep_daily)
  qed
qed

lemma take_flags_invalid:
  assumes "(\<exists>w. Weekly w \<in> set fs \<and> w \<notin> set DAY_CHOICES) \<or>
           (\<exists>d. Daily d \<in> set fs \<and> d \<notin> set HOUR_CHOICES)"
  shows "\<exists>opt v.
           take_flags fs a = Inl (ArgumentError opt v) \<and>
           (opt = ''--weekly'' \<and> Weekly v \<in> set fs \<and> v \<notin> set DAY_CHOICES \<or>
            opt = ''--daily'' \<and> Daily v \<in> set fs \<and> v \<notin> set HOUR_CHOICES)"
  using assms
proof (induction fs arbitrary: a)
  case Nil
  then show ?case by simp
next
  case (Cons f fs)
  show ?case
  proof (cases "take_flag f a")
    case (Inl e)
    then show ?thesis
      by (cases f) (auto simp add: check_value_def split: if_splits)
  next
    case (Inr b)
    from take_flag_Inr [OF this]
    have ok: "(case f of Weekly v \<Rightarrow> v \<in> set DAY_CHOICES | Daily v \<Rightarrow> v \<in> set HOUR_CHOICES | _ \<Rightarrow> True)"
      by (cases f) auto
    with Cons.prems have "(\<exists>w. Weekly w \<in> set fs \<and> w \<notin> set DAY_CHOICES) \<or>
           (\<exists>d. Daily d \<in> set fs \<and> d \<notin> set HOUR_CHOICES)"
      by (cases f) auto
    from Cons.IH [OF this, of b] Inr show ?thesis by auto
  qed
qed

section \<open>The command: parser, then handler\<close>

lemmas run_defs = do_backup_schedule_def example_client_def no_flags_def BackupScheduleManager_get_def
     http_def schedule_url_def example_server_def backup_of_args_def truthy_def upper_def char_upper_def
     BackupSchedule_update_def BackupScheduleManager_create_def param_def Let_def example_schedule_def
     shadowed_def print_dict_info_def

lemma command_parsed:
  "parse_args name flags = Inr a \<Longrightarrow>
     backup_schedule_command cs name flags sent = do_backup_schedule cs a sent"
  by (simp add: backup_schedule_command_def)

lemma parse_server: "parse_args name flags = Inr a \<Longrightarrow> args_server a = name"
  by (auto simp add: parse_args_def dest: take_flags_server)

lemma parse_ok: "parse_args name flags = Inr a \<Longrightarrow> choices_ok a"
  by (auto simp add: parse_args_def choices_ok_def dest!: take_flags_ok)

lemma command_invalid:
  assumes "(\<exists>w. Weekly w \<in> set flags \<and> w \<notin> set DAY_CHOICES) \<or>
           (\<exists>d. Daily d \<in> set flags \<and> d \<notin> set HOUR_CHOICES)"
  shows "\<exists>opt v.
           backup_schedule_command cs name flags sent = (Inl (ArgumentError opt v), sent) \<and>
           (opt = ''--weekly'' \<and> Weekly v \<in> set flags \<and> v \<notin> set DAY_CHOICES \<or>
            opt = ''--daily'' \<and> Daily v \<in> set flags \<and> v \<notin> set HOUR_CHOICES)"
proof -
  from take_flags_invalid [OF assms, of "\<lparr>args_server = name, args_enabled = None,
         args_weekly = None, args_daily = None, args_rotation = None\<rparr>"]
  obtain opt v
    where e: "parse_args name flags = Inl (ArgumentError opt v)"
      and c: "opt = ''--weekly'' \<and> Weekly v \<in> set flags \<and> v \<notin> set DAY_CHOICES \<or>
              opt = ''--daily'' \<and> Daily v \<in> set flags \<and> v \<notin> set HOUR_CHOICES"
    unfolding parse_args_def by blast
  from e have "backup_schedule_command cs name flags sent = (Inl (ArgumentError opt v), sent)"
    by (simp add: backup_schedule_command_def)
  with c show ?thesis by blast
qed

lemma example_fetched:
  "fst (BackupScheduleManager_get example_client example_server []) =
     Inr \<lparr>info = example_schedule, server = example_server\<rparr>"
  by (simp add: get_result example_client_def)

lemma example_not_shadowed:
  "\<not> shadowed \<lparr>info = example_schedule, server = example_server\<rparr> ''update''"
  "\<not> shadowed \<lparr>info = example_schedule, server = example_server\<rparr> ''manager''"
  "\<not> shadowed \<lparr>info = example_schedule, server = example_server\<rparr> ''_info''"
  by (simp_all add: shadowed_def example_schedule_def)

section \<open>The claims\<close>

text \<open>
  C6. The manager's update and create are one function: with the same server and the same
  four arguments both send the same POST, with the same body, to the server's schedule
  endpoint, and give the same result.
\<close>

theorem update_is_create:
  "BackupScheduleManager_update = BackupScheduleManager_create \<and>
   BackupScheduleManager_update cs srv e w d r sent =
     BackupScheduleManager_create cs srv e w d r sent \<and>
   snd (BackupScheduleManager_update cs srv e w d r sent) =
     sent @ [POST (''/servers/'' @ server_id srv @ ''/backup_schedule'')
               [(''backupSchedule'',
                 [(''enabled'', e), (''weekly'', w), (''daily'', d), (''rotation'', r)])]]"
  by (simp add: BackupScheduleManager_update_def create_sends schedule_url_def)



text \<open>
  C9. Every run of the show/update handler sends nothing when the server reference does
  not resolve, and otherwise sends one GET of the schedule first, followed by at most one
  POST, which happens only when the GET succeeded. Every run of the delete handler likewise
  sends nothing, or one GET, or one GET followed by one DELETE after a successful GET. So
  each run is at most one read followed by at most one write.
\<close>

theorem fetch_before_write:
  "(case find_resource cs (args_server a) of
      Inl e \<Rightarrow> snd (do_backup_schedule cs a sent) = sent
    | Inr srv \<Rightarrow>
        snd (do_backup_schedule cs a sent) = sent @ [GET (schedule_url srv)] \<or>
        (\<exists>b bs. fst (BackupScheduleManager_get cs srv sent) = Inr bs \<and>
                snd (do_backup_schedule cs a sent) =
                  sent @ [GET (schedule_url srv), POST (schedule_url srv) b])) \<and>
   (case find_resource cs name of
      Inl e \<Rightarrow> snd (do_backup_schedule_delete cs name sent) = sent
    | Inr srv \<Rightarrow>
        snd (do_backup_schedule_delete cs name sent) = sent @ [GET (schedule_url srv)] \<or>
        (\<exists>bs. fst (BackupScheduleManager_get cs srv sent) = Inr bs \<and>
              snd (do_backup_schedule_delete cs name sent) =
                sent @ [GET (schedule_url srv), DELETE (schedule_url srv)]))"
proof (intro conjI)
  show "case find_resource cs (args_server a) of
      Inl e \<Rightarrow> snd (do_backup_schedule cs a sent) = sent
    | Inr srv \<Rightarrow>
        snd (do_backup_schedule cs a sent) = sent @ [GET (schedule_url srv)] \<or>
        (\<exists>b bs. fst (BackupScheduleManager_get cs srv sent) = Inr bs \<and>
                snd (do_backup_schedule cs a sent) =
                  sent @ [GET (schedule_url srv), POST (schedule_url srv) b])"
  proof (cases "find_resource cs (args_server a)")
    case (Inl e)
    then show ?thesis by (simp add: handler_unresolved)
  next
    case (Inr srv)
    show ?thesis
    proof (cases "fst (BackupScheduleManager_get cs srv sent)")
      case (Inl e)
      with Inr show ?thesis by (simp add: handler_get_failed)
    next
      case g: (Inr bs)
      have srv: "server bs = srv" using g by (rule get_server)
      from update_trace [of cs bs "backup_of_args a" "sent @ [GET (schedule_url srv)]"]
      have "snd (do_backup_schedule cs a sent) = sent @ [GET (schedule_url srv)] \<or>
            (\<exists>b. snd (do_backup_schedule cs a sent) =
                   sent @ [GET (schedule_url srv), POST (schedule_url srv) b])"
        by (auto simp add: handler_fetched_trace [OF Inr g] srv)
      with Inr g show ?thesis by auto
    qed
  qed
next
  show "case find_resource cs name of
      Inl e \<Rightarrow> snd (do_backup_schedule_delete cs name sent) = sent
    | Inr srv \<Rightarrow>
        snd (do_backup_schedule_delete cs name sent) = sent @ [GET (schedule_url srv)] \<or>
        (\<exists>bs. fst (BackupScheduleManager_get cs srv sent) = Inr bs \<and>
              snd (do_backup_schedule_delete cs name sent) =
                sent @ [GET (schedule_url srv), DELETE (schedule_url srv)])"
  proof (cases "find_resource cs name")
    case (Inl e)
    then show ?thesis by (simp add: do_backup_schedule_delete_def)
  next
    case (Inr srv)
    show ?thesis
    proof (cases "fst (BackupScheduleManager_get cs srv sent)")
      case (Inl e)
      from get_pair [OF this] Inr show ?thesis by (simp add: do_backup_schedule_delete_def)
    next
      case g: (Inr bs)
      have srv: "server bs = srv" using g by (rule get_server)
      have "snd (do_backup_schedule_delete cs name sent) =
              snd (BackupSchedule_delete cs bs (sent @ [GET (schedule_url srv)]))"
        using Inr get_pair [OF g]
        by (simp add: do_backup_schedule_delete_def split: prod.splits sum.splits)
      with delete_trace [of cs bs "sent @ [GET (schedule_url srv)]"] srv
      have "snd (do_backup_schedule_delete cs name sent) = sent @ [GET (schedule_url srv)] \<or>
            snd (do_backup_schedule_delete cs name sent) =
              sent @ [GET (schedule_url srv), DELETE (schedule_url srv)]"
        by auto
      with Inr g show ?thesis by auto
    qed
  qed
qed

text \<open>
  C10. Presence of an override is decided per field: \<open>enabled\<close> and \<open>rotation\<close> are
  in the dictionary exactly when their parsed value is not \<open>None\<close> (so \<open>False\<close> from
  \<open>--disable\<close> and the rotation \<open>"0"\<close> are overrides), \<open>daily\<close> and \<open>weekly\<close> exactly
  when their value is truthy (\<open>None\<close> and the empty string count as absent); the
  dictionary is empty, and the schedule only shown, exactly when no field is present.
\<close>

theorem override_presence:
  "(map_of (backup_of_args a) ''enabled'' = map_option PyBool (args_enabled a)) \<and>
   (map_of (backup_of_args a) ''rotation'' = map_option PyStr (args_rotation a)) \<and>
   (map_of (backup_of_args a) ''daily'' =
      (if truthy (args_daily a) then Some (PyStr (upper (the (args_daily a)))) else None)) \<and>
   (map_of (backup_of_args a) ''weekly'' =
      (if truthy (args_weekly a) then Some (PyStr (upper (the (args_weekly a)))) else None)) \<and>
   truthy None = False \<and> truthy (Some []) = False \<and> truthy (Some (c # s)) = True \<and>
   (backup_of_args a = [] \<longleftrightarrow>
      \<not> truthy (args_daily a) \<and> \<not> truthy (args_weekly a) \<and> args_enabled a = None \<and>
      args_rotation a = None) \<and>
   backup_of_args (no_flags\<lparr>args_enabled := Some False\<rparr>) = [(''enabled'', PyBool False)] \<and>
   backup_of_args (no_flags\<lparr>args_rotation := Some ''0''\<rparr>) = [(''rotation'', PyStr ''0'')] \<and>
   backup_of_args (no_flags\<lparr>args_daily := Some [], args_weekly := Some []\<rparr>) = []"
  by (simp add: backup_of_args_def Let_def truthy_def no_flags_def split: option.splits)

text \<open>
  C1, as the specification states it, fails. With the fetched schedule
  \<open>{enabled: true, weekly: SUNDAY, daily: DISABLED, rotation: 2}\<close> and the single override
  \<open>daily = h_0200_0400\<close>, the handler submits
  \<open>{enabled: true, weekly: disabled, daily: H_0200_0400, rotation: 0}\<close>: the weekly and
  rotation fields of the fetched schedule are not kept.
\<close>

theorem update_merges_counterexample:
  "snd (do_backup_schedule example_client (no_flags\<lparr>args_daily := Some ''h_0200_0400''\<rparr>) []) =
     [GET ''/servers/1234/backup_schedule'',
      POST ''/servers/1234/backup_schedule''
        [(''backupSchedule'',
          [(''enabled'', PyBool True), (''weekly'', PyStr ''disabled''),
           (''daily'', PyStr ''H_0200_0400''), (''rotation'', PyInt 0)])]] \<and>
   map_of example_schedule ''weekly'' = Some (PyStr ''SUNDAY'') \<and>
   map_of example_schedule ''rotation'' = Some (PyInt 2) \<and>
   snd (do_backup_schedule example_client (no_flags\<lparr>args_daily := Some ''h_0200_0400''\<rparr>) []) \<noteq>
     [GET ''/servers/1234/backup_schedule'',
      POST ''/servers/1234/backup_schedule''
        [(''backupSchedule'',
          [(''enabled'', PyBool True), (''weekly'', PyStr ''SUNDAY''),
           (''daily'', PyStr ''H_0200_0400''), (''rotation'', PyInt 2)])]]"
  by (simp add: run_defs)

text \<open>
  C1, amended. The document that the update submits does not depend on the fetched
  schedule \<open>B\<close>. When the server is found, the schedule is fetched and no key of \<open>B\<close> hides
  the resource's \<open>update\<close> or replaces its manager, the handler sends one POST whose
  document has the four fields and equals the override on every field that has one
  (a weekly or daily override in ASCII upper-cased); where \<open>enabled\<close> has no override it is
  \<open>True\<close>, and where \<open>rotation\<close> has none it is \<open>0\<close>; and the same document is sent for
  every other fetched schedule \<open>B'\<close>, so no field is taken from \<open>B\<close>.
\<close>

theorem update_sends_overrides_and_defaults:
  assumes "find_resource cs (args_server a) = Inr srv"
      and "fst (BackupScheduleManager_get cs srv sent) = Inr B"
      and "\<not> shadowed B ''update''" and "\<not> shadowed B ''manager''"
      and "backup_of_args a \<noteq> []"
  shows "\<exists>D. snd (do_backup_schedule cs a sent) =
               sent @ [GET (schedule_url srv),
                       POST (schedule_url srv) [(''backupSchedule'', D)]] \<and>
             map fst D = [''enabled'', ''weekly'', ''daily'', ''rotation''] \<and>
             map_of D ''enabled'' =
               Some (case args_enabled a of None \<Rightarrow> PyBool True | Some e \<Rightarrow> PyBool e) \<and>
             map_of D ''rotation'' =
               Some (case args_rotation a of None \<Rightarrow> PyInt 0 | Some r \<Rightarrow> PyStr r) \<and>
             (\<forall>w. args_weekly a = Some w \<and> w \<noteq> [] \<and> ascii w \<longrightarrow>
                  map_of D ''weekly'' = Some (PyStr (upper w))) \<and>
             (\<forall>d. args_daily a = Some d \<and> d \<noteq> [] \<and> ascii d \<longrightarrow>
                  map_of D ''daily'' = Some (PyStr (upper d))) \<and>
             (\<forall>cs' srv' sent' B'.
                  find_resource cs' (args_server a) = Inr srv' \<and>
                  fst (BackupScheduleManager_get cs' srv' sent') = Inr B' \<and>
                  \<not> shadowed B' ''update'' \<and> \<not> shadowed B' ''manager'' \<longrightarrow>
                  snd (do_backup_schedule cs' a sent') =
                    sent' @ [GET (schedule_url srv'),
                             POST (schedule_url srv') [(''backupSchedule'', D)]])"
proof -
  let ?D = "[(''enabled'', param (backup_of_args a) ''enabled'' (PyBool True)),
             (''weekly'', param (backup_of_args a) ''weekly'' (PyStr ''disabled'')),
             (''daily'', param (backup_of_args a) ''daily'' (PyStr ''disabled'')),
             (''rotation'', param (backup_of_args a) ''rotation'' (PyInt 0))]"
  have t: "snd (do_backup_schedule cs a sent) =
      sent @ [GET (schedule_url srv), POST (schedule_url srv) [(''backupSchedule'', ?D)]]"
    by (rule handler_update [OF assms])
  have k: "map fst ?D = [''enabled'', ''weekly'', ''daily'', ''rotation'']" by simp
  have e: "map_of ?D ''enabled'' =
      Some (case args_enabled a of None \<Rightarrow> PyBool True | Some e \<Rightarrow> PyBool e)"
    by (simp add: param_enabled)
  have r: "map_of ?D ''rotation'' =
      Some (case args_rotation a of None \<Rightarrow> PyInt 0 | Some r \<Rightarrow> PyStr r)"
    by (simp add: param_rotation)
  have w: "\<forall>w. args_weekly a = Some w \<and> w \<noteq> [] \<and> ascii w \<longrightarrow>
      map_of ?D ''weekly'' = Some (PyStr (upper w))"
    by (simp add: param_weekly truthy_def)
  have d: "\<forall>d. args_daily a = Some d \<and> d \<noteq> [] \<and> ascii d \<longrightarrow>
      map_of ?D ''daily'' = Some (PyStr (upper d))"
    by (simp add: param_daily truthy_def)
  have i: "\<forall>cs' srv' sent' B'.
      find_resource cs' (args_server a) = Inr srv' \<and>
      fst (BackupScheduleManager_get cs' srv' sent') = Inr B' \<and>
      \<not> shadowed B' ''update'' \<and> \<not> shadowed B' ''manager'' \<longrightarrow>
      snd (do_backup_schedule cs' a sent') =
        sent' @ [GET (schedule_url srv'), POST (schedule_url srv') [(''backupSchedule'', ?D)]]"
    using assms(5) by (blast intro: handler_update)
  from t k e r w d i show ?thesis by (intro exI [of _ ?D] conjI)
qed

theorem update_sends_overrides_and_defaults_witness:
  "find_resource example_client (args_server (no_flags\<lparr>args_daily := Some ''h_0200_0400''\<rparr>)) =
     Inr example_server \<and>
   fst (BackupScheduleManager_get example_client example_server []) =
     Inr \<lparr>info = example_schedule, server = example_server\<rparr> \<and>
   \<not> shadowed \<lparr>info = example_schedule, server = example_server\<rparr> ''update'' \<and>
   \<not> shadowed \<lparr>info = example_schedule, server = example_server\<rparr> ''manager'' \<and>
   backup_of_args (no_flags\<lparr>args_daily := Some ''h_0200_0400''\<rparr>) \<noteq> [] \<and>
   ascii ''h_0200_0400'' \<and>
   (\<exists>D. snd (do_backup_schedule example_client (no_flags\<lparr>args_daily := Some ''h_0200_0400''\<rparr>) []) =
          [GET (schedule_url example_server),
           POST (schedule_url example_server) [(''backupSchedule'', D)]] \<and>
        map_of D ''enabled'' = Some (PyBool True) \<and>
        map_of D ''rotation'' = Some (PyInt 0) \<and>
        map_of D ''daily'' = Some (PyStr ''H_0200_0400''))"
proof -
  let ?a = "no_flags\<lparr>args_daily := Some ''h_0200_0400''\<rparr>"
  have h1: "find_resource example_client (args_server ?a) = Inr example_server"
    by (simp add: example_client_def no_flags_def)
  note h2 = example_fetched and h3 = example_not_shadowed(1) and h4 = example_not_shadowed(2)
  have h5: "backup_of_args ?a \<noteq> []"
    by (simp add: backup_nonempty truthy_def no_flags_def)
  have h6: "ascii ''h_0200_0400''" by (simp add: ascii_def)
  have u: "upper ''h_0200_0400'' = ''H_0200_0400''" by (simp add: upper_def char_upper_def)
  have n: "args_enabled ?a = None" "args_rotation ?a = None"
    "args_daily ?a = Some ''h_0200_0400''" "''h_0200_0400'' \<noteq> []"
    by (simp_all add: no_flags_def)
  from update_sends_overrides_and_defaults [OF h1 h2 h3 h4 h5]
  obtain D where t: "snd (do_backup_schedule example_client ?a []) =
          [] @ [GET (schedule_url example_server),
           POST (schedule_url example_server) [(''backupSchedule'', D)]]"
    and e: "map_of D ''enabled'' =
       Some (case args_enabled ?a of None \<Rightarrow> PyBool True | Some e \<Rightarrow> PyBool e)"
    and r: "map_of D ''rotation'' =
       Some (case args_rotation ?a of None \<Rightarrow> PyInt 0 | Some r \<Rightarrow> PyStr r)"
    and d: "\<forall>d. args_daily ?a = Some d \<and> d \<noteq> [] \<and> ascii d \<longrightarrow>
       map_of D ''daily'' = Some (PyStr (upper d))"
    by blast
  from d n(3,4) h6 have "map_of D ''daily'' = Some (PyStr (upper ''h_0200_0400''))" by blast
  with u have d': "map_of D ''daily'' = Some (PyStr ''H_0200_0400'')" by simp
  from e n(1) have e': "map_of D ''enabled'' = Some (PyBool True)" by simp
  from r n(2) have r': "map_of D ''rotation'' = Some (PyInt 0)" by simp
  from t have t': "snd (do_backup_schedule example_client ?a []) =
          [GET (schedule_url example_server),
           POST (schedule_url example_server) [(''backupSchedule'', D)]]" by simp
  from h1 h2 h3 h4 h5 h6 t' e' r' d' show ?thesis by blast
qed

text \<open>
  C2, as the specification states it, fails. The manager's \<open>create\<close> sends the weekly
  value it is given, here \<open>FUNDAY\<close>, which is no member of \<open>DAY_CHOICES\<close>; and the command
  with the only flag \<open>--enable\<close> sends \<open>disabled\<close> in lower case for weekly and daily,
  which is a member of neither vocabulary.
\<close>

theorem wire_vocabulary_counterexample:
  "snd (BackupScheduleManager_create example_client example_server
          (PyBool True) (PyStr ''FUNDAY'') (PyStr ''DISABLED'') (PyInt 0) []) =
     [POST ''/servers/1234/backup_schedule''
        [(''backupSchedule'',
          [(''enabled'', PyBool True), (''weekly'', PyStr ''FUNDAY''),
           (''daily'', PyStr ''DISABLED''), (''rotation'', PyInt 0)])]] \<and>
   ''FUNDAY'' \<notin> set DAY_CHOICES \<and>
   snd (backup_schedule_command example_client ''web1'' [Enable] []) =
     [GET ''/servers/1234/backup_schedule'',
      POST ''/servers/1234/backup_schedule''
        [(''backupSchedule'',
          [(''enabled'', PyBool True), (''weekly'', PyStr ''disabled''),
           (''daily'', PyStr ''disabled''), (''rotation'', PyInt 0)])]] \<and>
   ''disabled'' \<notin> set DAY_CHOICES \<and> ''disabled'' \<notin> set HOUR_CHOICES"
  by (simp add: run_defs backup_schedule_command_def parse_args_def DAY_CHOICES_def HOUR_CHOICES_def)

text \<open>
  C2, amended. When the command, given at least one option, gets through the parser, the
  lookup and the GET, and no key of the fetched document hides the resource's \<open>update\<close> or
  replaces its manager, it sends one POST whose document has, for a weekly option the user
  supplied, a weekly field that is a member of \<open>DAY_CHOICES\<close>, and for a daily option the
  user supplied, a daily field that is a member of \<open>HOUR_CHOICES\<close>. The manager's
  \<open>create\<close> and \<open>update\<close> check nothing themselves: they send the weekly and daily values
  they are given, whatever these are.
\<close>

theorem supplied_choices_on_wire:
  assumes "parse_args name flags = Inr a"
      and "find_resource cs name = Inr srv"
      and "fst (BackupScheduleManager_get cs srv sent) = Inr bs"
      and "\<not> shadowed bs ''update''" and "\<not> shadowed bs ''manager''"
      and "flags \<noteq> []"
  shows "(\<exists>D. snd (backup_schedule_command cs name flags sent) =
               sent @ [GET (schedule_url srv),
                       POST (schedule_url srv) [(''backupSchedule'', D)]] \<and>
             ((\<exists>x. Weekly x \<in> set flags) \<longrightarrow>
                (\<exists>w. w \<in> set DAY_CHOICES \<and> map_of D ''weekly'' = Some (PyStr w))) \<and>
             ((\<exists>x. Daily x \<in> set flags) \<longrightarrow>
                (\<exists>d. d \<in> set HOUR_CHOICES \<and> map_of D ''daily'' = Some (PyStr d)))) \<and>
         snd (BackupScheduleManager_create cs' srv' e w d r sent') =
           sent' @ [POST (schedule_url srv')
                      [(''backupSchedule'',
                        [(''enabled'', e), (''weekly'', w), (''daily'', d), (''rotation'', r)])]] \<and>
         snd (BackupScheduleManager_update cs' srv' e w d r sent') =
           sent' @ [POST (schedule_url srv')
                      [(''backupSchedule'',
                        [(''enabled'', e), (''weekly'', w), (''daily'', d), (''rotation'', r)])]]"
proof (intro conjI)
  let ?D = "[(''enabled'', param (backup_of_args a) ''enabled'' (PyBool True)),
             (''weekly'', param (backup_of_args a) ''weekly'' (PyStr ''disabled'')),
             (''daily'', param (backup_of_args a) ''daily'' (PyStr ''disabled'')),
             (''rotation'', param (backup_of_args a) ''rotation'' (PyInt 0))]"
  have srv: "find_resource cs (args_server a) = Inr srv"
    using assms(1,2) by (simp add: parse_server)
  have ne: "backup_of_args a \<noteq> []"
    using assms(1,6) by (auto simp add: parse_args_def dest: take_flags_nonempty)
  have ok: "choices_ok a" using assms(1) by (rule parse_ok)
  have tr: "snd (backup_schedule_command cs name flags sent) =
      sent @ [GET (schedule_url srv), POST (schedule_url srv) [(''backupSchedule'', ?D)]]"
    using handler_update [OF srv assms(3,4,5) ne] by (simp add: command_parsed [OF assms(1)])
  have wk: "\<exists>w. w \<in> set DAY_CHOICES \<and> map_of ?D ''weekly'' = Some (PyStr w)"
    if "\<exists>x. Weekly x \<in> set flags"
  proof -
    from that assms(1) have "args_weekly a \<noteq> None"
      by (auto simp add: parse_args_def dest: take_flags_weekly)
    then obtain w where w: "args_weekly a = Some w" by auto
    with ok have m: "w \<in> set DAY_CHOICES" by (simp add: choices_ok_def)
    with w have "param (backup_of_args a) ''weekly'' (PyStr ''disabled'') = PyStr w"
      by (simp add: param_weekly truthy_def day_nonempty upper_day)
    with m show ?thesis by simp
  qed
  have dy: "\<exists>d. d \<in> set HOUR_CHOICES \<and> map_of ?D ''daily'' = Some (PyStr d)"
    if "\<exists>x. Daily x \<in> set flags"
  proof -
    from that assms(1) have "args_daily a \<noteq> None"
      by (auto simp add: parse_args_def dest: take_flags_daily)
    then obtain d where d: "args_daily a = Some d" by auto
    with ok have m: "d \<in> set HOUR_CHOICES" by (simp add: choices_ok_def)
    with d have "param (backup_of_args a) ''daily'' (PyStr ''disabled'') = PyStr d"
      by (simp add: param_daily truthy_def hour_nonempty upper_hour)
    with m show ?thesis by simp
  qed
  from tr wk dy
  show "\<exists>D. snd (backup_schedule_command cs name flags sent) =
               sent @ [GET (schedule_url srv),
                       POST (schedule_url srv) [(''backupSchedule'', D)]] \<and>
             ((\<exists>x. Weekly x \<in> set flags) \<longrightarrow>
                (\<exists>w. w \<in> set DAY_CHOICES \<and> map_of D ''weekly'' = Some (PyStr w))) \<and>
             ((\<exists>x. Daily x \<in> set flags) \<longrightarrow>
                (\<exists>d. d \<in> set HOUR_CHOICES \<and> map_of D ''daily'' = Some (PyStr d)))"
    by blast
next
  show "snd (BackupScheduleManager_create cs' srv' e w d r sent') =
           sent' @ [POST (schedule_url srv')
                      [(''backupSchedule'',
                        [(''enabled'', e), (''weekly'', w), (''daily'', d), (''rotation'', r)])]]"
    by (rule create_sends)
next
  show "snd (BackupScheduleManager_update cs' srv' e w d r sent') =
           sent' @ [POST (schedule_url srv')
                      [(''backupSchedule'',
                        [(''enabled'', e), (''weekly'', w), (''daily'', d), (''rotation'', r)])]]"
    by (simp add: BackupScheduleManager_update_def create_sends)
qed

theorem supplied_choices_on_wire_witness:
  "parse_args ''web1'' [Weekly ''SUNDAY'', Daily ''H_0200_0400''] =
     Inr (no_flags\<lparr>args_weekly := Some ''SUNDAY'', args_daily := Some ''H_0200_0400''\<rparr>) \<and>
   find_resource example_client ''web1'' = Inr example_server \<and>
   fst (BackupScheduleManager_get example_client example_server []) =
     Inr \<lparr>info = example_schedule, server = example_server\<rparr> \<and>
   \<not> shadowed \<lparr>info = example_schedule, server = example_server\<rparr> ''update'' \<and>
   \<not> shadowed \<lparr>info = example_schedule, server = example_server\<rparr> ''manager'' \<and>
   [Weekly ''SUNDAY'', Daily ''H_0200_0400''] \<noteq> [] \<and>
   (\<exists>D. snd (backup_schedule_command example_client ''web1''
              [Weekly ''SUNDAY'', Daily ''H_0200_0400''] []) =
          [GET (schedule_url example_server),
           POST (schedule_url example_server) [(''backupSchedule'', D)]] \<and>
        (\<exists>w. w \<in> set DAY_CHOICES \<and> map_of D ''weekly'' = Some (PyStr w)) \<and>
        (\<exists>d. d \<in> set HOUR_CHOICES \<and> map_of D ''daily'' = Some (PyStr d)))"
proof -
  let ?flags = "[Weekly ''SUNDAY'', Daily ''H_0200_0400'']"
  have h1: "parse_args ''web1'' ?flags =
     Inr (no_flags\<lparr>args_weekly := Some ''SUNDAY'', args_daily := Some ''H_0200_0400''\<rparr>)"
    by (simp add: parse_args_def check_value_def DAY_CHOICES_def HOUR_CHOICES_def no_flags_def)
  have h2: "find_resource example_client ''web1'' = Inr example_server"
    by (simp add: example_client_def)
  note h3 = example_fetched and h4 = example_not_shadowed(1) and h5 = example_not_shadowed(2)
  have h6: "?flags \<noteq> []" by simp
  have w: "\<exists>x. Weekly x \<in> set ?flags" and d: "\<exists>x. Daily x \<in> set ?flags"
    by simp_all
  from supplied_choices_on_wire [OF h1 h2 h3 h4 h5 h6] w d
  have "\<exists>D. snd (backup_schedule_command example_client ''web1'' ?flags []) =
          [GET (schedule_url example_server),
           POST (schedule_url example_server) [(''backupSchedule'', D)]] \<and>
        (\<exists>w. w \<in> set DAY_CHOICES \<and> map_of D ''weekly'' = Some (PyStr w)) \<and>
        (\<exists>d. d \<in> set HOUR_CHOICES \<and> map_of D ''daily'' = Some (PyStr d))"
    by simp
  with h1 h2 h3 h4 h5 h6 show ?thesis by (intro conjI)
qed

text \<open>
  C3, as the specification states it, fails. The rotation values \<open>-1\<close> and \<open>abc\<close> are
  not rejected: the command sends the GET and then a POST that carries the value as the
  string the user typed, and succeeds.
\<close>

theorem rotation_validation_counterexample:
  "backup_schedule_command example_client ''web1'' [Rotation ''-1''] [] =
     (Inr Silent,
      [GET ''/servers/1234/backup_schedule'',
       POST ''/servers/1234/backup_schedule''
         [(''backupSchedule'',
           [(''enabled'', PyBool True), (''weekly'', PyStr ''disabled''),
            (''daily'', PyStr ''disabled''), (''rotation'', PyStr ''-1'')])]]) \<and>
   backup_schedule_command example_client ''web1'' [Rotation ''abc''] [] =
     (Inr Silent,
      [GET ''/servers/1234/backup_schedule'',
       POST ''/servers/1234/backup_schedule''
         [(''backupSchedule'',
           [(''enabled'', PyBool True), (''weekly'', PyStr ''disabled''),
            (''daily'', PyStr ''disabled''), (''rotation'', PyStr ''abc'')])]])"
  by (simp add: run_defs backup_schedule_command_def parse_args_def)

text \<open>
  C3, amended. No rotation override is validated. Take a command line that the parser
  accepts and add \<open>--rotation=r\<close> at its end, for any text \<open>r\<close>: negative, zero, positive
  or no number at all. When the server is found, the schedule is fetched and no key of the
  fetched document hides the resource's \<open>update\<close> or replaces its manager, the command
  sends the GET and then one POST whose rotation field is the string \<open>r\<close>, unchanged, and
  the outcome of the command is the outcome of that POST: there is no validation error for
  a rotation.
\<close>

theorem rotation_sent_unchecked:
  assumes "parse_args name flags = Inr a"
      and "find_resource cs name = Inr srv"
      and "fst (BackupScheduleManager_get cs srv sent) = Inr bs"
      and "\<not> shadowed bs ''update''" and "\<not> shadowed bs ''manager''"
  shows "\<exists>D. map_of D ''rotation'' = Some (PyStr r) \<and>
             snd (backup_schedule_command cs name (flags @ [Rotation r]) sent) =
               sent @ [GET (schedule_url srv),
                       POST (schedule_url srv) [(''backupSchedule'', D)]] \<and>
             fst (backup_schedule_command cs name (flags @ [Rotation r]) sent) =
               (case respond cs (sent @ [GET (schedule_url srv)])
                       (POST (schedule_url srv) [(''backupSchedule'', D)]) of
                  Inl e \<Rightarrow> Inl e
                | Inr b \<Rightarrow> Inr Silent)"
proof -
  let ?a = "a\<lparr>args_rotation := Some r\<rparr>"
  let ?D = "[(''enabled'', param (backup_of_args ?a) ''enabled'' (PyBool True)),
             (''weekly'', param (backup_of_args ?a) ''weekly'' (PyStr ''disabled'')),
             (''daily'', param (backup_of_args ?a) ''daily'' (PyStr ''disabled'')),
             (''rotation'', param (backup_of_args ?a) ''rotation'' (PyInt 0))]"
  have p: "parse_args name (flags @ [Rotation r]) = Inr ?a"
    using assms(1) by (simp add: parse_args_def take_flags_append)
  have srv: "find_resource cs (args_server ?a) = Inr srv"
    using assms(2) parse_server [OF p] by simp
  have ne: "backup_of_args ?a \<noteq> []" by (simp add: backup_nonempty)
  have m: "map_of ?D ''rotation'' = Some (PyStr r)" by (simp add: param_rotation)
  have t: "snd (backup_schedule_command cs name (flags @ [Rotation r]) sent) =
      sent @ [GET (schedule_url srv), POST (schedule_url srv) [(''backupSchedule'', ?D)]]"
    using handler_update [OF srv assms(3,4,5) ne] by (simp only: command_parsed [OF p])
  have o: "fst (backup_schedule_command cs name (flags @ [Rotation r]) sent) =
      (case respond cs (sent @ [GET (schedule_url srv)])
              (POST (schedule_url srv) [(''backupSchedule'', ?D)]) of
         Inl e \<Rightarrow> Inl e
       | Inr b \<Rightarrow> Inr Silent)"
    using handler_update_result [OF srv assms(3,4,5) ne] by (simp only: command_parsed [OF p])
  from m t o show ?thesis by (intro exI [of _ ?D] conjI)
qed

theorem rotation_sent_unchecked_witness:
  "parse_args ''web1'' [] = Inr no_flags \<and>
   find_resource example_client ''web1'' = Inr example_server \<and>
   fst (BackupScheduleManager_get example_client example_server []) =
     Inr \<lparr>info = example_schedule, server = example_server\<rparr> \<and>
   \<not> shadowed \<lparr>info = example_schedule, server = example_server\<rparr> ''update'' \<and>
   \<not> shadowed \<lparr>info = example_schedule, server = example_server\<rparr> ''manager'' \<and>
   (\<exists>D. map_of D ''rotation'' = Some (PyStr ''-1'') \<and>
        snd (backup_schedule_command example_client ''web1'' ([] @ [Rotation ''-1'']) []) =
          [] @ [GET (schedule_url example_server),
                POST (schedule_url example_server) [(''backupSchedule'', D)]] \<and>
        fst (backup_schedule_command example_client ''web1'' ([] @ [Rotation ''-1'']) []) =
          (case respond example_client ([] @ [GET (schedule_url example_server)])
                  (POST (schedule_url example_server) [(''backupSchedule'', D)]) of
             Inl e \<Rightarrow> Inl e
           | Inr b \<Rightarrow> Inr Silent))"
proof -
  have h1: "parse_args ''web1'' [] = Inr no_flags"
    by (simp add: parse_args_def no_flags_def)
  have h2: "find_resource example_client ''web1'' = Inr example_server"
    by (simp add: example_client_def)
  note h3 = example_fetched and h4 = example_not_shadowed(1) and h5 = example_not_shadowed(2)
  note c = rotation_sent_unchecked [OF h1 h2 h3 h4 h5, of "''-1''"]
  from h1 h2 h3 h4 h5 c show ?thesis by (intro conjI)
qed

text \<open>
  C4, as the specification states it, fails in one part. The weekly value \<open>FUNDAY\<close> is
  rejected and no request is sent, but the error that the command reports holds the option
  and the rejected value only: the list of allowed values is not in it.
\<close>

theorem invalid_choice_lists_values_counterexample:
  "backup_schedule_command example_client ''web1'' [Weekly ''FUNDAY''] [] =
     (Inl (ArgumentError ''--weekly'' ''FUNDAY''), []) \<and>
   ''--weekly'' \<noteq> pretty_choice_list DAY_CHOICES \<and>
   ''FUNDAY'' \<noteq> pretty_choice_list DAY_CHOICES"
  by (simp add: backup_schedule_command_def parse_args_def check_value_def DAY_CHOICES_def
      pretty_choice_list_def quoted_def)

text \<open>
  C4, amended. When some weekly option is not in \<open>DAY_CHOICES\<close>, or some daily option is
  not in \<open>HOUR_CHOICES\<close>, the command fails with the parser's error, which names the option
  (\<open>--weekly\<close> or \<open>--daily\<close>) and a rejected value of that option, and the list of requests
  sent is unchanged: no request is made. The allowed values are listed, each in single
  quotes and separated by a comma and a space, in the help text of the option, not in the
  error.
\<close>

theorem invalid_choice_rejected:
  assumes "(\<exists>w. Weekly w \<in> set flags \<and> w \<notin> set DAY_CHOICES) \<or>
           (\<exists>d. Daily d \<in> set flags \<and> d \<notin> set HOUR_CHOICES)"
  shows "(\<exists>opt v.
           backup_schedule_command cs name flags sent = (Inl (ArgumentError opt v), sent) \<and>
           (opt = ''--weekly'' \<and> Weekly v \<in> set flags \<and> v \<notin> set DAY_CHOICES \<or>
            opt = ''--daily'' \<and> Daily v \<in> set flags \<and> v \<notin> set HOUR_CHOICES)) \<and>
         weekly_help =
           ''Schedule a weekly backup for <day> (one of: 'DISABLED', 'SUNDAY', 'MONDAY', 'TUESDAY', 'WEDNESDAY', 'THURSDAY', 'FRIDAY', 'SATURDAY').'' \<and>
         daily_help =
           ''Schedule a daily backup during <time-window> (one of: 'DISABLED', 'H_0000_0200', 'H_0200_0400', 'H_0400_0600', 'H_0600_0800', 'H_0800_1000', 'H_1000_1200', 'H_1200_1400', 'H_1400_1600', 'H_1600_1800', 'H_1800_2000', 'H_2000_2200', 'H_2200_0000').''"
proof (intro conjI)
  show "\<exists>opt v.
           backup_schedule_command cs name flags sent = (Inl (ArgumentError opt v), sent) \<and>
           (opt = ''--weekly'' \<and> Weekly v \<in> set flags \<and> v \<notin> set DAY_CHOICES \<or>
            opt = ''--daily'' \<and> Daily v \<in> set flags \<and> v \<notin> set HOUR_CHOICES)"
    by (rule command_invalid [OF assms])
next
  show "weekly_help =
           ''Schedule a weekly backup for <day> (one of: 'DISABLED', 'SUNDAY', 'MONDAY', 'TUESDAY', 'WEDNESDAY', 'THURSDAY', 'FRIDAY', 'SATURDAY').''"
    by (simp add: weekly_help_def pretty_choice_list_def DAY_CHOICES_def quoted_def)
next
  show "daily_help =
           ''Schedule a daily backup during <time-window> (one of: 'DISABLED', 'H_0000_0200', 'H_0200_0400', 'H_0400_0600', 'H_0600_0800', 'H_0800_1000', 'H_1000_1200', 'H_1200_1400', 'H_1400_1600', 'H_1600_1800', 'H_1800_2000', 'H_2000_2200', 'H_2200_0000').''"
    by (simp add: daily_help_def pretty_choice_list_def HOUR_CHOICES_def quoted_def)
qed

theorem invalid_choice_rejected_witness:
  "Weekly ''FUNDAY'' \<in> set [Enable, Weekly ''FUNDAY''] \<and> ''FUNDAY'' \<notin> set DAY_CHOICES \<and>
   backup_schedule_command example_client ''web1'' [Enable, Weekly ''FUNDAY''] [] =
     (Inl (ArgumentError ''--weekly'' ''FUNDAY''), [])"
proof -
  have h: "Weekly ''FUNDAY'' \<in> set [Enable, Weekly ''FUNDAY''] \<and> ''FUNDAY'' \<notin> set DAY_CHOICES"
    by (simp add: DAY_CHOICES_def)
  then have "(\<exists>w. Weekly w \<in> set [Enable, Weekly ''FUNDAY''] \<and> w \<notin> set DAY_CHOICES) \<or>
           (\<exists>d. Daily d \<in> set [Enable, Weekly ''FUNDAY''] \<and> d \<notin> set HOUR_CHOICES)"
    by blast
  from invalid_choice_rejected [OF this, of example_client "''web1''" "[]"] h
  show ?thesis by auto
qed

text \<open>
  C5, as the specification states it, fails. The lower-case inputs \<open>sunday\<close> and
  \<open>h_0200_0400\<close> are rejected by the parser's \<open>choices=\<close>, which compares strings exactly,
  and no request is sent.
\<close>

theorem case_insensitive_counterexample:
  "backup_schedule_command example_client ''web1'' [Weekly ''sunday''] [] =
     (Inl (ArgumentError ''--weekly'' ''sunday''), []) \<and>
   backup_schedule_command example_client ''web1'' [Daily ''h_0200_0400''] [] =
     (Inl (ArgumentError ''--daily'' ''h_0200_0400''), [])"
  by (simp add: backup_schedule_command_def parse_args_def check_value_def
      DAY_CHOICES_def HOUR_CHOICES_def)

text \<open>
  C5, amended. The parser in front of the handler accepts a weekly or daily value only
  when it is a member of \<open>DAY_CHOICES\<close> or \<open>HOUR_CHOICES\<close> as written, in upper case: a
  command line with any other spelling, such as \<open>sunday\<close> or \<open>h_0200_0400\<close>, fails with
  the parser's error and sends no request, and upper-casing changes nothing in a value
  the parser lets through. The handler itself upper-cases: a non-empty weekly or daily
  value in ASCII that reaches it, in whatever case, is placed in the document it sends
  with \<open>a\<close> to \<open>z\<close> moved to \<open>A\<close> to \<open>Z\<close> (given the server is found, the schedule
  fetched, and no key of the fetched document hides the resource's \<open>update\<close> or replaces
  its manager).
\<close>

theorem upper_case_past_the_parser:
  "(\<forall>v. Weekly v \<in> set flags \<and> v \<notin> set DAY_CHOICES \<longrightarrow>
        (\<exists>opt x. backup_schedule_command cs name flags sent =
                   (Inl (ArgumentError opt x), sent))) \<and>
   (\<forall>v. Daily v \<in> set flags \<and> v \<notin> set HOUR_CHOICES \<longrightarrow>
        (\<exists>opt x. backup_schedule_command cs name flags sent =
                   (Inl (ArgumentError opt x), sent))) \<and>
   (\<forall>v. v \<in> set DAY_CHOICES \<longrightarrow> upper v = v) \<and>
   (\<forall>v. v \<in> set HOUR_CHOICES \<longrightarrow> upper v = v) \<and>
   ''sunday'' \<notin> set DAY_CHOICES \<and> ''h_0200_0400'' \<notin> set HOUR_CHOICES \<and>
   upper ''sunday'' = ''SUNDAY'' \<and> upper ''h_0200_0400'' = ''H_0200_0400'' \<and>
   upper ''SunDay'' = ''SUNDAY'' \<and>
   (\<forall>srv bs.
      find_resource cs (args_server a) = Inr srv \<and>
      fst (BackupScheduleManager_get cs srv sent) = Inr bs \<and>
      \<not> shadowed bs ''update'' \<and> \<not> shadowed bs ''manager'' \<and>
      backup_of_args a \<noteq> [] \<longrightarrow>
      (\<exists>D. snd (do_backup_schedule cs a sent) =
              sent @ [GET (schedule_url srv),
                      POST (schedule_url srv) [(''backupSchedule'', D)]] \<and>
            (\<forall>x. args_weekly a = Some x \<and> x \<noteq> [] \<and> ascii x \<longrightarrow>
                 map_of D ''weekly'' = Some (PyStr (upper x))) \<and>
            (\<forall>x. args_daily a = Some x \<and> x \<noteq> [] \<and> ascii x \<longrightarrow>
                 map_of D ''daily'' = Some (PyStr (upper x)))))"
proof (intro conjI allI impI)
  fix v
  assume "Weekly v \<in> set flags \<and> v \<notin> set DAY_CHOICES"
  then have "(\<exists>w. Weekly w \<in> set flags \<and> w \<notin> set DAY_CHOICES) \<or>
             (\<exists>d. Daily d \<in> set flags \<and> d \<notin> set HOUR_CHOICES)"
    by blast
  from command_invalid [OF this, of cs name sent]
  show "\<exists>opt x. backup_schedule_command cs name flags sent = (Inl (ArgumentError opt x), sent)"
    by blast
next
  fix v
  assume "Daily v \<in> set flags \<and> v \<notin> set HOUR_CHOICES"
  then have "(\<exists>w. Weekly w \<in> set flags \<and> w \<notin> set DAY_CHOICES) \<or>
             (\<exists>d. Daily d \<in> set flags \<and> d \<notin> set HOUR_CHOICES)"
    by blast
  from command_invalid [OF this, of cs name sent]
  show "\<exists>opt x. backup_schedule_command cs name flags sent = (Inl (ArgumentError opt x), sent)"
    by blast
next
  fix v
  assume "v \<in> set DAY_CHOICES"
  then show "upper v = v" by (rule upper_day)
next
  fix v
  assume "v \<in> set HOUR_CHOICES"
  then show "upper v = v" by (rule upper_hour)
next
  show "''sunday'' \<notin> set DAY_CHOICES" by (simp add: DAY_CHOICES_def)
next
  show "''h_0200_0400'' \<notin> set HOUR_CHOICES" by (simp add: HOUR_CHOICES_def)
next
  show "upper ''sunday'' = ''SUNDAY''" by (simp add: upper_def char_upper_def)
next
  show "upper ''h_0200_0400'' = ''H_0200_0400''" by (simp add: upper_def char_upper_def)
next
  show "upper ''SunDay'' = ''SUNDAY''" by (simp add: upper_def char_upper_def)
next
  fix srv bs
  assume h: "find_resource cs (args_server a) = Inr srv \<and>
      fst (BackupScheduleManager_get cs srv sent) = Inr bs \<and>
      \<not> shadowed bs ''update'' \<and> \<not> shadowed bs ''manager'' \<and>
      backup_of_args a \<noteq> []"
  let ?D = "[(''enabled'', param (backup_of_args a) ''enabled'' (PyBool True)),
             (''weekly'', param (backup_of_args a) ''weekly'' (PyStr ''disabled'')),
             (''daily'', param (backup_of_args a) ''daily'' (PyStr ''disabled'')),
             (''rotation'', param (backup_of_args a) ''rotation'' (PyInt 0))]"
  from h have t: "snd (do_backup_schedule cs a sent) =
      sent @ [GET (schedule_url srv), POST (schedule_url srv) [(''backupSchedule'', ?D)]]"
    by (blast intro: handler_update)
  have w: "\<forall>x. args_weekly a = Some x \<and> x \<noteq> [] \<and> ascii x \<longrightarrow>
      map_of ?D ''weekly'' = Some (PyStr (upper x))"
    by (simp add: param_weekly truthy_def)
  have d: "\<forall>x. args_daily a = Some x \<and> x \<noteq> [] \<and> ascii x \<longrightarrow>
      map_of ?D ''daily'' = Some (PyStr (upper x))"
    by (simp add: param_daily truthy_def)
  from t w d
  show "\<exists>D. snd (do_backup_schedule cs a sent) =
              sent @ [GET (schedule_url srv),
                      POST (schedule_url srv) [(''backupSchedule'', D)]] \<and>
            (\<forall>x. args_weekly a = Some x \<and> x \<noteq> [] \<and> ascii x \<longrightarrow>
                 map_of D ''weekly'' = Some (PyStr (upper x))) \<and>
            (\<forall>x. args_daily a = Some x \<and> x \<noteq> [] \<and> ascii x \<longrightarrow>
                 map_of D ''daily'' = Some (PyStr (upper x)))"
    by (intro exI [of _ ?D] conjI)
qed

theorem upper_case_past_the_parser_witness:
  "Weekly ''sunday'' \<in> set [Weekly ''sunday''] \<and> ''sunday'' \<notin> set DAY_CHOICES \<and>
   (\<exists>opt x. backup_schedule_command example_client ''web1'' [Weekly ''sunday''] [] =
              (Inl (ArgumentError opt x), [])) \<and>
   ''SUNDAY'' \<in> set DAY_CHOICES \<and> upper ''SUNDAY'' = ''SUNDAY'' \<and>
   find_resource example_client (args_server (no_flags\<lparr>args_weekly := Some ''sunday''\<rparr>)) =
     Inr example_server \<and>
   fst (BackupScheduleManager_get example_client example_server []) =
     Inr \<lparr>info = example_schedule, server = example_server\<rparr> \<and>
   \<not> shadowed \<lparr>info = example_schedule, server = example_server\<rparr> ''update'' \<and>
   \<not> shadowed \<lparr>info = example_schedule, server = example_server\<rparr> ''manager'' \<and>
   backup_of_args (no_flags\<lparr>args_weekly := Some ''sunday''\<rparr>) \<noteq> [] \<and>
   ascii ''sunday'' \<and>
   (\<exists>D. snd (do_backup_schedule example_client (no_flags\<lparr>args_weekly := Some ''sunday''\<rparr>) []) =
          [GET (schedule_url example_server),
           POST (schedule_url example_server) [(''backupSchedule'', D)]] \<and>
        map_of D ''weekly'' = Some (PyStr ''SUNDAY''))"
proof -
  let ?a = "no_flags\<lparr>args_weekly := Some ''sunday''\<rparr>"
  note inst = upper_case_past_the_parser
    [of "[Weekly ''sunday'']" example_client "''web1''" "[]" ?a]
  have p1: "Weekly ''sunday'' \<in> set [Weekly ''sunday'']" by simp
  have p2: "''sunday'' \<notin> set DAY_CHOICES" by (simp add: DAY_CHOICES_def)
  from inst p1 p2
  have rej: "\<exists>opt x. backup_schedule_command example_client ''web1'' [Weekly ''sunday''] [] =
              (Inl (ArgumentError opt x), [])"
    by blast
  have m: "''SUNDAY'' \<in> set DAY_CHOICES" by (simp add: DAY_CHOICES_def)
  from inst m have um: "upper ''SUNDAY'' = ''SUNDAY''" by blast
  have h1: "find_resource example_client (args_server ?a) = Inr example_server"
    by (simp add: example_client_def no_flags_def)
  note h2 = example_fetched and h3 = example_not_shadowed(1) and h4 = example_not_shadowed(2)
  have h5: "backup_of_args ?a \<noteq> []"
    by (simp add: backup_nonempty truthy_def no_flags_def)
  have h6: "ascii ''sunday''" by (simp add: ascii_def)
  have w: "args_weekly ?a = Some ''sunday''" "''sunday'' \<noteq> []" by simp_all
  from inst have u: "upper ''sunday'' = ''SUNDAY''" by blast
  from inst h1 h2 h3 h4 h5
  obtain D where t: "snd (do_backup_schedule example_client ?a []) =
          [] @ [GET (schedule_url example_server),
           POST (schedule_url example_server) [(''backupSchedule'', D)]]"
    and x: "\<forall>x. args_weekly ?a = Some x \<and> x \<noteq> [] \<and> ascii x \<longrightarrow>
             map_of D ''weekly'' = Some (PyStr (upper x))"
    by blast
  from x w h6 have "map_of D ''weekly'' = Some (PyStr (upper ''sunday''))" by blast
  with u have w': "map_of D ''weekly'' = Some (PyStr ''SUNDAY'')" by simp
  from t have t': "snd (do_backup_schedule example_client ?a []) =
          [GET (schedule_url example_server),
           POST (schedule_url example_server) [(''backupSchedule'', D)]]" by simp
  from p1 p2 rej m um h1 h2 h3 h4 h5 h6 t' w' show ?thesis by blast
qed




end
